theory Spec2Isabelle
  imports Main
begin

section \<open>LicenseCheck: the report pipeline of \<^verbatim>\<open>licensecheck/__init__.py\<close>\<close>

text \<open>
  The module holds three functions: \<^verbatim>\<open>_doSysExec\<close> (runs a command, returns exit code and
  output), \<^verbatim>\<open>getdepsLicenses\<close> (enumerates the requirements, classifies the licenses and
  builds the list of records) and \<^verbatim>\<open>cli\<close> (argument handling and printing).
  Everything the module calls in \<^verbatim>\<open>packageinfo\<close>, \<^verbatim>\<open>license_matrix\<close>,
  \<^verbatim>\<open>formatter\<close> and \<^verbatim>\<open>requirements\<close> is a parameter of the model, collected in
  the record \<open>env\<close>; so is the operating system (commands, files).

  Python strings are \<open>string\<close>; a \<open>char\<close> stands for a code point below 256.
\<close>

subsection \<open>Strings: \<^verbatim>\<open>str.split()\<close> and \<^verbatim>\<open>str.splitlines(False)\<close>\<close>

text \<open>
  \<^verbatim>\<open>str.split()\<close> without a separator splits at runs of whitespace and drops empty
  words. The whitespace code points below 256 are 9 to 13, 28 to 31, 32, 133 and 160.
\<close>

definition isspace :: "char \<Rightarrow> bool" where
  "isspace c = (c \<in> set [CHR 0x09, CHR 0x0A, CHR 0x0B, CHR 0x0C, CHR 0x0D,
                          CHR 0x1C, CHR 0x1D, CHR 0x1E, CHR 0x1F, CHR 0x20,
                          CHR 0x85, CHR 0xA0])"

fun split_loop :: "string \<Rightarrow> string \<Rightarrow> string list" where
  "split_loop word [] = (if word = [] then [] else [word])"
| "split_loop word (c # cs) =
     (if isspace c then (if word = [] then split_loop [] cs else word # split_loop [] cs)
      else split_loop (word @ [c]) cs)"

definition str_split :: "string \<Rightarrow> string list" where
  "str_split s = split_loop [] s"

text \<open>
  \<^verbatim>\<open>str.splitlines(False)\<close> cuts at line boundaries and drops them: LF, CR, CR LF, VT, FF,
  FS, GS, RS and NEL among the code points below 256. A boundary at the very end opens
  no further line.
\<close>

definition islinebreak :: "char \<Rightarrow> bool" where
  "islinebreak c = (c \<in> set [CHR 0x0A, CHR 0x0B, CHR 0x0C, CHR 0x0D,
                              CHR 0x1C, CHR 0x1D, CHR 0x1E, CHR 0x85])"

fun splitlines_loop :: "string \<Rightarrow> string \<Rightarrow> string list" where
  "splitlines_loop cur [] = (if cur = [] then [] else [cur])"
| "splitlines_loop cur (c # cs) =
     (if c = CHR 0x0D then
        (case cs of
           d # ds \<Rightarrow> if d = CHR 0x0A then cur # splitlines_loop [] ds
                     else cur # splitlines_loop [] cs
         | [] \<Rightarrow> cur # splitlines_loop [] cs)
      else if islinebreak c then cur # splitlines_loop [] cs
      else splitlines_loop (cur @ [c]) cs)"

definition str_splitlines :: "string \<Rightarrow> string list" where
  "str_splitlines s = splitlines_loop [] s"

subsection \<open>Errors, events and runs\<close>

text \<open>
  Exceptions are values. \<open>IndexError\<close> is raised by an index out of range, \<open>OSError\<close> by
  \<^verbatim>\<open>open\<close>, \<open>SystemExit n\<close> by \<^verbatim>\<open>sys.exit(n)\<close>; \<open>Raised msg\<close> is any exception
  that comes out of a function of another module.
\<close>

datatype error = IndexError | OSError | SystemExit int | Raised string

text \<open>
  The calls a function makes outside itself are logged in order. \<open>'c\<close> is the type of
  the values \<^verbatim>\<open>license_matrix.licenseType\<close> returns in its sequence.
\<close>

datatype dest = Stdout | File string

datatype 'c event =
    Exec string
  | Warn string
  | Open string string
  | RequirementsParse string
  | GetMyPackageLicense
  | LicenseType string
  | GetPackages "string list"
  | DepCompatibleLice 'c "'c list"
  | Print dest string

type_synonym ('c, 'a) run = "'c event list \<times> (error + 'a)"

definition ret :: "'a \<Rightarrow> ('c, 'a) run" where
  "ret x = ([], Inr x)"

definition call :: "'c event \<Rightarrow> error + 'a \<Rightarrow> ('c, 'a) run" where
  "call ev r = ([ev], r)"

definition bind :: "('c, 'a) run \<Rightarrow> ('a \<Rightarrow> ('c, 'b) run) \<Rightarrow> ('c, 'b) run" where
  "bind m f =
     (case m of
        (tr, Inl e) \<Rightarrow> (tr, Inl e)
      | (tr, Inr x) \<Rightarrow> (case f x of (tr', r) \<Rightarrow> (tr @ tr', r)))"

subsection \<open>Data\<close>

text \<open>
  Modelled from the spec: the dictionaries \<^verbatim>\<open>PackageInfo\<close> (module \<^verbatim>\<open>packageinfo\<close>) and
  \<^verbatim>\<open>PackageCompat\<close> (module \<^verbatim>\<open>packagecompat\<close>) are declared outside this module. The
  spec gives their keys: name, version, license, homepage and author, the last two
  optional; a \<^verbatim>\<open>PackageCompat\<close> has the same keys and \<^verbatim>\<open>license_compat\<close>.
\<close>

record packageinfo =
  name :: string
  version :: string
  license :: string
  homepage :: "string option"
  author :: "string option"

record packagecompat = packageinfo +
  license_compat :: bool

text \<open>\<^verbatim>\<open>PackageCompat(**package, license_compat=v)\<close>: the keys of the package and one more.\<close>

definition PackageCompat :: "packageinfo \<Rightarrow> bool \<Rightarrow> packagecompat" where
  "PackageCompat package v =
     \<lparr>name = name package, version = version package, license = license package,
      homepage = homepage package, author = author package, license_compat = v\<rparr>"

text \<open>
  What the module calls and does not define. \<open>popen\<close> is the operating system running a
  command (exit code and output); \<open>read_file\<close> is the text of a file that \<^verbatim>\<open>open(p, 'r')\<close>
  can open, \<open>can_write\<close> says whether \<^verbatim>\<open>open(p, "w")\<close> succeeds. \<open>requirements_parse\<close>
  gives the names of the requirements of a text. The functions that touch files or the
  network may raise; \<open>licenseType\<close>, \<open>depCompatibleLice\<close> and the formatters are pure.
  The module indexes the result of \<open>licenseType\<close>, so it is a sequence.
\<close>

record 'c env =
  popen :: "string \<Rightarrow> int \<times> string"
  read_file :: "string \<Rightarrow> string option"
  can_write :: "string \<Rightarrow> bool"
  requirements_parse :: "string \<Rightarrow> error + string list"
  getMyPackageLicense :: "error + string"
  getPackages :: "string list \<Rightarrow> error + packageinfo list"
  licenseType :: "string \<Rightarrow> 'c list"
  depCompatibleLice :: "'c \<Rightarrow> 'c list \<Rightarrow> bool"
  formatter_json :: "packagecompat list \<Rightarrow> string"
  formatter_markdown :: "packagecompat list \<Rightarrow> string"
  formatter_csv :: "packagecompat list \<Rightarrow> string"
  formatter_ansi :: "packagecompat list \<Rightarrow> string"
  formatter_simple :: "packagecompat list \<Rightarrow> string"

subsection \<open>\<^verbatim>\<open>_doSysExec\<close> (lines 18 to 36)\<close>

definition doSysExec :: "'c env \<Rightarrow> string \<Rightarrow> ('c, int \<times> string) run" where
  "doSysExec E command = call (Exec command) (Inr (popen E command))"

subsection \<open>\<^verbatim>\<open>getdepsLicenses\<close> (lines 39 to 71)\<close>

text \<open>
  Lines 55 to 57: \<^verbatim>\<open>for line in lines: parts = line.split(); reqs.append(parts[0])\<close>.
  \<^verbatim>\<open>parts[0]\<close> raises \<open>IndexError\<close> when the line has no word.
\<close>

fun poetry_loop :: "string list \<Rightarrow> string list \<Rightarrow> error + string list" where
  "poetry_loop reqs [] = Inr reqs"
| "poetry_loop reqs (line # lines) =
     (case str_split line of
        [] \<Rightarrow> Inl IndexError
      | part # _ \<Rightarrow> poetry_loop (reqs @ [part]) lines)"

text \<open>
  Lines 45 to 61: is poetry installed, and the list of requirements. The warning of line
  49 is logged (the default warning filter prints it and goes on).
\<close>

definition get_reqs :: "'c env \<Rightarrow> ('c, string list) run" where
  "get_reqs E =
     bind (doSysExec E ''poetry -h'') (\<lambda>(exitCode, out).
     bind (if exitCode \<noteq> 0
           then call (Warn ''poetry is not on the system path'') (Inr False)
           else ret True) (\<lambda>poetryInstalled.
     if poetryInstalled then
       bind (doSysExec E ''poetry show'') (\<lambda>(exitCode', out').
       ([], poetry_loop [] (str_splitlines out')))
     else
       bind (call (Open ''requirements.txt'' ''r'')
              (case read_file E ''requirements.txt'' of
                 None \<Rightarrow> Inl OSError
               | Some txt \<Rightarrow> Inr txt)) (\<lambda>requirementsTxt.
       call (RequirementsParse requirementsTxt) (requirements_parse E requirementsTxt))))"

text \<open>Lines 67 to 70: the loop over the packages, appending one record each.\<close>

fun deps_loop ::
  "'c env \<Rightarrow> 'c \<Rightarrow> packagecompat list \<Rightarrow> packageinfo list \<Rightarrow> ('c, packagecompat list) run"
where
  "deps_loop E myLice depsLicenses [] = ret depsLicenses"
| "deps_loop E myLice depsLicenses (package # packages) =
     bind (call (LicenseType (license package)) (Inr (licenseType E (license package))))
       (\<lambda>depLice.
     bind (call (DepCompatibleLice myLice depLice) (Inr (depCompatibleLice E myLice depLice)))
       (\<lambda>compat.
     deps_loop E myLice (depsLicenses @ [PackageCompat package compat]) packages))"

text \<open>
  Lines 62 to 71: the license of the project, its first category
  (\<^verbatim>\<open>licenseType(myLiceTxt)[0]\<close>, an \<open>IndexError\<close> on an empty sequence), the packages of
  the requirements and the loop.
\<close>

definition assemble :: "'c env \<Rightarrow> string list \<Rightarrow> ('c, packagecompat list) run" where
  "assemble E reqs =
     bind (call GetMyPackageLicense (getMyPackageLicense E)) (\<lambda>myLiceTxt.
     bind (call (LicenseType myLiceTxt) (Inr (licenseType E myLiceTxt))) (\<lambda>cats.
     bind ([], case cats of [] \<Rightarrow> Inl IndexError | c # _ \<Rightarrow> Inr c) (\<lambda>myLice.
     bind (call (GetPackages reqs) (getPackages E reqs)) (\<lambda>packages.
     deps_loop E myLice [] packages))))"

text \<open>
  The body of \<^verbatim>\<open>getdepsLicenses\<close> is these two parts one after the other: an exception in
  the first part ends the function before the second starts.
\<close>

definition getdepsLicenses :: "'c env \<Rightarrow> ('c, packagecompat list) run" where
  "getdepsLicenses E = bind (get_reqs E) (assemble E)"

subsection \<open>\<^verbatim>\<open>cli\<close> (lines 73 to 94)\<close>

definition FORMAT_HELP :: string where
  "FORMAT_HELP = ''Output format. One of simple, ansi, json, markdown, csv. default=simple''"

text \<open>The result of \<^verbatim>\<open>parser.parse_args()\<close>: \<^verbatim>\<open>args.format\<close> and \<^verbatim>\<open>args.file\<close>, each \<^verbatim>\<open>None\<close> when omitted.\<close>

record args =
  arg_format :: "string option"
  arg_file :: "string option"

definition formatMap :: "'c env \<Rightarrow> (string \<times> (packagecompat list \<Rightarrow> string)) list" where
  "formatMap E =
     [(''json'', formatter_json E), (''markdown'', formatter_markdown E),
      (''csv'', formatter_csv E), (''ansi'', formatter_ansi E),
      (''simple'', formatter_simple E)]"

text \<open>
  Lines 82 to 94, after the arguments are parsed. The output file is opened first;
  \<^verbatim>\<open>sysexit(1)\<close> raises \<open>SystemExit 1\<close>.
\<close>

definition cli :: "'c env \<Rightarrow> args \<Rightarrow> ('c, unit) run" where
  "cli E a =
     bind (case arg_file a of
             None \<Rightarrow> ret Stdout
           | Some path \<Rightarrow>
               call (Open path ''w'') (if can_write E path then Inr (File path) else Inl OSError))
       (\<lambda>filename.
     case arg_format a of
       None \<Rightarrow>
         bind (getdepsLicenses E) (\<lambda>deps.
         call (Print filename (formatter_simple E deps)) (Inr ()))
     | Some fmt \<Rightarrow>
         (case map_of (formatMap E) fmt of
            Some f \<Rightarrow>
              bind (getdepsLicenses E) (\<lambda>deps.
              call (Print filename (f deps)) (Inr ()))
          | None \<Rightarrow>
              bind (call (Print Stdout FORMAT_HELP) (Inr ())) (\<lambda>_.
              ([], Inl (SystemExit 1)))))"

subsection \<open>Inputs for running the model\<close>

text \<open>
  Stand-ins for the functions of the other modules, to run the model on concrete inputs.
  They are inputs of the examples below and not the repository's implementations: a
  classifier that knows three texts, a compatibility function, a lookup that knows three
  names, and formatters that return fixed texts. The categories are the six names the
  spec lists.
\<close>

datatype LicenseCategory =
  Permissive | WeakCopyleft | StrongCopyleft | Proprietary | PublicDomain | Unknown

definition example_licenseType :: "string \<Rightarrow> LicenseCategory list" where
  "example_licenseType s =
     (if s = ''MIT'' then [Permissive]
      else if s = ''GPL-3.0'' then [StrongCopyleft]
      else if s = ''MIT, GPL-3.0'' then [Permissive, StrongCopyleft]
      else [Unknown])"

definition example_depCompatibleLice :: "LicenseCategory \<Rightarrow> LicenseCategory list \<Rightarrow> bool" where
  "example_depCompatibleLice my deps =
     list_all (\<lambda>d. d = Permissive \<or> (d = my \<and> d \<noteq> Unknown)) deps"

definition example_package :: "string \<Rightarrow> packageinfo" where
  "example_package n =
     \<lparr>name = n, version = ''1.0'',
      license = (if n = ''foo'' then ''MIT''
                 else if n = ''bar'' then ''GPL-3.0''
                 else if n = ''baz'' then ''MIT, GPL-3.0''
                 else []),
      homepage = None, author = None\<rparr>"

text \<open>
  \<open>example_env code out req\<close>: \<^verbatim>\<open>poetry -h\<close> exits with \<open>code\<close>, \<^verbatim>\<open>poetry show\<close> prints
  \<open>out\<close>, \<^verbatim>\<open>requirements.txt\<close> holds \<open>req\<close> (or cannot be opened), and only
  \<^verbatim>\<open>report.txt\<close> can be opened for writing.
\<close>

definition example_env :: "int \<Rightarrow> string \<Rightarrow> string option \<Rightarrow> LicenseCategory env" where
  "example_env code out req =
     \<lparr>popen = (\<lambda>command. if command = ''poetry -h'' then (code, []) else (0, out)),
      read_file = (\<lambda>p. if p = ''requirements.txt'' then req else None),
      can_write = (\<lambda>p. p = ''report.txt''),
      requirements_parse = (\<lambda>txt. Inr (str_splitlines txt)),
      getMyPackageLicense = Inr ''MIT'',
      getPackages = (\<lambda>reqs. Inr (map example_package reqs)),
      licenseType = example_licenseType,
      depCompatibleLice = example_depCompatibleLice,
      formatter_json = (\<lambda>deps. ''json''),
      formatter_markdown = (\<lambda>deps. ''markdown''),
      formatter_csv = (\<lambda>deps. ''csv''),
      formatter_ansi = (\<lambda>deps. ''ansi''),
      formatter_simple = (\<lambda>deps. ''simple'')\<rparr>"

section \<open>Properties\<close>

subsection \<open>Splitting\<close>

lemma split_loop_Nil_iff:
  "split_loop w s = [] \<longleftrightarrow> w = [] \<and> (\<forall>c\<in>set s. isspace c)"
  by (induction s arbitrary: w) auto

lemma split_loop_word:
  "w \<noteq> [] \<Longrightarrow> \<exists>rest. split_loop w s = (w @ takeWhile (\<lambda>c. \<not> isspace c) s) # rest"
proof (induction s arbitrary: w)
  case Nil
  then show ?case by simp
next
  case (Cons c cs)
  show ?case
  proof (cases "isspace c")
    case True
    with Cons.prems show ?thesis by simp
  next
    case False
    have "w @ [c] \<noteq> []" by simp
    from Cons.IH [OF this] False show ?thesis by simp
  qed
qed

lemma split_loop_first:
  "\<exists>c\<in>set s. \<not> isspace c \<Longrightarrow>
   \<exists>rest. split_loop [] s = takeWhile (\<lambda>c. \<not> isspace c) (dropWhile isspace s) # rest"
proof (induction s)
  case Nil
  then show ?case by simp
next
  case (Cons c cs)
  show ?case
  proof (cases "isspace c")
    case True
    with Cons show ?thesis by auto
  next
    case False
    then show ?thesis using split_loop_word [of "[c]" cs] by simp
  qed
qed

lemma poetry_loop_ok:
  "\<forall>l\<in>set lines. \<exists>c\<in>set l. \<not> isspace c \<Longrightarrow>
   poetry_loop reqs lines =
     Inr (reqs @ map (\<lambda>l. takeWhile (\<lambda>c. \<not> isspace c) (dropWhile isspace l)) lines)"
proof (induction lines arbitrary: reqs)
  case Nil
  then show ?case by simp
next
  case (Cons l ls)
  from Cons.prems have "\<exists>c\<in>set l. \<not> isspace c" by simp
  from split_loop_first [OF this] obtain rest where
    "str_split l = takeWhile (\<lambda>c. \<not> isspace c) (dropWhile isspace l) # rest"
    by (auto simp: str_split_def)
  with Cons show ?case by simp
qed

lemma poetry_loop_blank:
  "\<exists>l\<in>set lines. \<forall>c\<in>set l. isspace c \<Longrightarrow> poetry_loop reqs lines = Inl IndexError"
proof (induction lines arbitrary: reqs)
  case Nil
  then show ?case by simp
next
  case (Cons l ls)
  show ?case
  proof (cases "str_split l")
    case Nil
    then show ?thesis by simp
  next
    case (Cons p ps)
    then have "\<not> (\<forall>c\<in>set l. isspace c)"
      using split_loop_Nil_iff [of "[]" l] by (simp add: str_split_def)
    with Cons.prems Cons.IH Cons show ?thesis by auto
  qed
qed

subsection \<open>The shape of a run\<close>

lemma deps_loop_eq:
  "deps_loop E myLice acc pkgs =
     (concat (map (\<lambda>p. [LicenseType (license p),
                          DepCompatibleLice myLice (licenseType E (license p))]) pkgs),
      Inr (acc @ map (\<lambda>p. PackageCompat p
                     (depCompatibleLice E myLice (licenseType E (license p)))) pkgs))"
  by (induction pkgs arbitrary: acc) (simp_all add: bind_def call_def ret_def)

lemma get_reqs_poetry:
  "fst (popen E ''poetry -h'') = 0 \<Longrightarrow>
   get_reqs E = ([Exec ''poetry -h'', Exec ''poetry show''],
                 poetry_loop [] (str_splitlines (snd (popen E ''poetry show''))))"
  by (cases "popen E ''poetry -h''"; cases "popen E ''poetry show''";
      cases "poetry_loop [] (str_splitlines (snd (popen E ''poetry show'')))")
     (simp_all add: get_reqs_def doSysExec_def bind_def call_def ret_def)

lemma get_reqs_requirements:
  "fst (popen E ''poetry -h'') \<noteq> 0 \<Longrightarrow>
   get_reqs E =
     (case read_file E ''requirements.txt'' of
        None \<Rightarrow> ([Exec ''poetry -h'', Warn ''poetry is not on the system path'',
                  Open ''requirements.txt'' ''r''], Inl OSError)
      | Some txt \<Rightarrow> ([Exec ''poetry -h'', Warn ''poetry is not on the system path'',
                      Open ''requirements.txt'' ''r'', RequirementsParse txt],
                     requirements_parse E txt))"
  by (cases "popen E ''poetry -h''")
     (auto simp add: get_reqs_def doSysExec_def bind_def call_def ret_def
           split: option.splits sum.splits)

lemma assemble_reached:
  "getMyPackageLicense E = Inr myTxt \<Longrightarrow> licenseType E myTxt = myLice # rest \<Longrightarrow>
   getPackages E reqs = Inr pkgs \<Longrightarrow>
   assemble E reqs =
     ([GetMyPackageLicense, LicenseType myTxt, GetPackages reqs] @
      concat (map (\<lambda>p. [LicenseType (license p),
                          DepCompatibleLice myLice (licenseType E (license p))]) pkgs),
      Inr (map (\<lambda>p. PackageCompat p
                 (depCompatibleLice E myLice (licenseType E (license p)))) pkgs))"
  by (simp add: assemble_def bind_def call_def deps_loop_eq)

lemma assemble_GetPackages:
  "GetPackages reqs' \<in> set (fst (assemble E reqs)) \<Longrightarrow>
   reqs' = reqs \<and> (\<exists>myTxt myLice rest.
      getMyPackageLicense E = Inr myTxt \<and> licenseType E myTxt = myLice # rest)"
  by (cases "getMyPackageLicense E")
     (auto simp add: assemble_def bind_def call_def deps_loop_eq
           split: sum.splits list.splits prod.splits)

lemma get_reqs_events:
  "ev \<in> set (fst (get_reqs E)) \<Longrightarrow>
   ev = Exec ''poetry -h'' \<or> ev = Exec ''poetry show'' \<or>
   ev = Warn ''poetry is not on the system path'' \<or> ev = Open ''requirements.txt'' ''r'' \<or>
   (\<exists>txt. ev = RequirementsParse txt)"
  by (cases "fst (popen E ''poetry -h'') = 0")
     (auto simp add: get_reqs_poetry get_reqs_requirements split: option.splits)

lemma assemble_events:
  "ev \<in> set (fst (assemble E reqs)) \<Longrightarrow>
   ev = GetMyPackageLicense \<or> (\<exists>s. ev = LicenseType s) \<or> ev = GetPackages reqs \<or>
   (\<exists>p ds. ev = DepCompatibleLice p ds)"
  by (cases "getMyPackageLicense E")
     (auto simp add: assemble_def bind_def call_def deps_loop_eq
           split: sum.splits list.splits prod.splits)

lemma getdeps_trace:
  "fst (getdepsLicenses E) =
     (case snd (get_reqs E) of
        Inl e \<Rightarrow> fst (get_reqs E)
      | Inr reqs \<Rightarrow> fst (get_reqs E) @ fst (assemble E reqs))"
  by (cases "get_reqs E"; cases "snd (get_reqs E)")
     (auto simp add: getdepsLicenses_def bind_def split: prod.splits)

lemma getdeps_result:
  "snd (getdepsLicenses E) =
     (case snd (get_reqs E) of
        Inl e \<Rightarrow> Inl e
      | Inr reqs \<Rightarrow> snd (assemble E reqs))"
  by (cases "get_reqs E"; cases "snd (get_reqs E)")
     (auto simp add: getdepsLicenses_def bind_def split: prod.splits)

lemma getdeps_reached:
  assumes "GetPackages reqs \<in> set (fst (getdepsLicenses E))"
  shows "snd (get_reqs E) = Inr reqs \<and> (\<exists>myTxt myLice rest.
      getMyPackageLicense E = Inr myTxt \<and> licenseType E myTxt = myLice # rest)"
proof (cases "snd (get_reqs E)")
  case (Inl e)
  with assms have "GetPackages reqs \<in> set (fst (get_reqs E))"
    by (simp add: getdeps_trace)
  from get_reqs_events [OF this] show ?thesis by simp
next
  case (Inr reqs')
  with assms have "GetPackages reqs \<in> set (fst (get_reqs E)) \<or>
      GetPackages reqs \<in> set (fst (assemble E reqs'))"
    by (simp add: getdeps_trace)
  then have "GetPackages reqs \<in> set (fst (assemble E reqs'))"
    using get_reqs_events [of "GetPackages reqs" E] by auto
  from assemble_GetPackages [OF this] Inr show ?thesis by simp
qed

lemma getdeps_success:
  assumes "GetPackages reqs \<in> set (fst (getdepsLicenses E))"
    and "getPackages E reqs = Inr pkgs"
  shows "\<exists>myTxt myLice rest.
      getMyPackageLicense E = Inr myTxt \<and> licenseType E myTxt = myLice # rest \<and>
      getdepsLicenses E =
        (fst (get_reqs E) @ [GetMyPackageLicense, LicenseType myTxt, GetPackages reqs] @
         concat (map (\<lambda>p. [LicenseType (license p),
                             DepCompatibleLice myLice (licenseType E (license p))]) pkgs),
         Inr (map (\<lambda>p. PackageCompat p
                    (depCompatibleLice E myLice (licenseType E (license p)))) pkgs))"
proof -
  from getdeps_reached [OF assms(1)] obtain myTxt myLice rest where
    r: "snd (get_reqs E) = Inr reqs" and
    m: "getMyPackageLicense E = Inr myTxt" "licenseType E myTxt = myLice # rest"
    by blast
  from assemble_reached [OF m assms(2)] r
  have "getdepsLicenses E =
        (fst (get_reqs E) @ [GetMyPackageLicense, LicenseType myTxt, GetPackages reqs] @
         concat (map (\<lambda>p. [LicenseType (license p),
                             DepCompatibleLice myLice (licenseType E (license p))]) pkgs),
         Inr (map (\<lambda>p. PackageCompat p
                    (depCompatibleLice E myLice (licenseType E (license p)))) pkgs))"
    by (simp add: prod_eq_iff getdeps_trace getdeps_result)
  with m show ?thesis by blast
qed

lemma truncate_PackageCompat: "packageinfo.truncate (PackageCompat p v) = p"
  by (simp add: PackageCompat_def packageinfo.truncate_def)

subsection \<open>Runs of the example environment\<close>

lemma example_poetry_run:
  "getdepsLicenses (example_env 0 ''foo 1.0 a\<newline>bar 2.1 b\<newline>foo 1.0 a'' None) =
    ([Exec ''poetry -h'', Exec ''poetry show'', GetMyPackageLicense, LicenseType ''MIT'',
      GetPackages [''foo'', ''bar'', ''foo''],
      LicenseType ''MIT'', DepCompatibleLice Permissive [Permissive],
      LicenseType ''GPL-3.0'', DepCompatibleLice Permissive [StrongCopyleft],
      LicenseType ''MIT'', DepCompatibleLice Permissive [Permissive]],
     Inr [PackageCompat (example_package ''foo'') True,
          PackageCompat (example_package ''bar'') False,
          PackageCompat (example_package ''foo'') True])"
  by (simp add: getdepsLicenses_def get_reqs_def assemble_def doSysExec_def bind_def call_def
      ret_def example_env_def str_splitlines_def str_split_def isspace_def islinebreak_def
      example_licenseType_def example_depCompatibleLice_def example_package_def PackageCompat_def)

section \<open>The claims\<close>

text \<open>
  Claim C1. The report has one record per dependency: when \<^verbatim>\<open>getdepsLicenses\<close> has called
  \<^verbatim>\<open>getPackages(reqs)\<close> and the call returned the \<open>N\<close> packages \<open>pkgs\<close>, it returns a
  list of exactly \<open>N\<close> records whose package parts are \<open>pkgs\<close>, in the same order;
  nothing is filtered out and duplicates are kept.
\<close>

theorem getdepsLicenses_one_record_per_package:
  assumes "GetPackages reqs \<in> set (fst (getdepsLicenses E))"
    and "getPackages E reqs = Inr pkgs"
  shows "\<exists>out. snd (getdepsLicenses E) = Inr out \<and> length out = length pkgs \<and>
           map packageinfo.truncate out = pkgs"
proof -
  from getdeps_success [OF assms] obtain myLice where
    "snd (getdepsLicenses E) =
       Inr (map (\<lambda>p. PackageCompat p
                  (depCompatibleLice E myLice (licenseType E (license p)))) pkgs)"
    by fastforce
  then show ?thesis
    by (simp add: comp_def truncate_PackageCompat)
qed

theorem getdepsLicenses_one_record_per_package_witness:
  "GetPackages [''foo'', ''bar'', ''foo'']
     \<in> set (fst (getdepsLicenses (example_env 0 ''foo 1.0 a\<newline>bar 2.1 b\<newline>foo 1.0 a'' None))) \<and>
   getPackages (example_env 0 ''foo 1.0 a\<newline>bar 2.1 b\<newline>foo 1.0 a'' None)
     [''foo'', ''bar'', ''foo'']
     = Inr [example_package ''foo'', example_package ''bar'', example_package ''foo''] \<and>
   (\<exists>out. snd (getdepsLicenses (example_env 0 ''foo 1.0 a\<newline>bar 2.1 b\<newline>foo 1.0 a'' None))
            = Inr out \<and>
          length out = length [example_package ''foo'', example_package ''bar'', example_package ''foo''] \<and>
          map packageinfo.truncate out =
            [example_package ''foo'', example_package ''bar'', example_package ''foo''])"
proof -
  let ?E = "example_env 0 ''foo 1.0 a\<newline>bar 2.1 b\<newline>foo 1.0 a'' None"
  have h1: "GetPackages [''foo'', ''bar'', ''foo''] \<in> set (fst (getdepsLicenses ?E))"
    by (simp add: example_poetry_run)
  have h2: "getPackages ?E [''foo'', ''bar'', ''foo'']
      = Inr [example_package ''foo'', example_package ''bar'', example_package ''foo'']"
    by (simp add: example_env_def)
  from getdepsLicenses_one_record_per_package [OF h1 h2] h1 h2 show ?thesis by blast
qed

text \<open>
  Claim C2. Every record's \<^verbatim>\<open>license_compat\<close> is the verdict of \<^verbatim>\<open>depCompatibleLice\<close> on
  the category of the project (the first element of \<^verbatim>\<open>licenseType(myLiceTxt)\<close>) and the
  classification of that dependency's license text, both computed in this run.
\<close>

theorem license_compat_is_verdict:
  assumes "GetPackages reqs \<in> set (fst (getdepsLicenses E))"
    and "getPackages E reqs = Inr pkgs"
  shows "\<exists>myLiceTxt myLice rest out.
      getMyPackageLicense E = Inr myLiceTxt \<and> licenseType E myLiceTxt = myLice # rest \<and>
      snd (getdepsLicenses E) = Inr out \<and> length out = length pkgs \<and>
      (\<forall>i<length pkgs.
         license_compat (out ! i) =
           depCompatibleLice E myLice (licenseType E (license (pkgs ! i))))"
proof -
  from getdeps_success [OF assms] obtain myTxt myLice rest where
    m: "getMyPackageLicense E = Inr myTxt" "licenseType E myTxt = myLice # rest" and
    r: "snd (getdepsLicenses E) =
       Inr (map (\<lambda>p. PackageCompat p
                  (depCompatibleLice E myLice (licenseType E (license p)))) pkgs)"
    by fastforce
  let ?out = "map (\<lambda>p. PackageCompat p
                  (depCompatibleLice E myLice (licenseType E (license p)))) pkgs"
  have "\<forall>i<length pkgs. license_compat (?out ! i) =
           depCompatibleLice E myLice (licenseType E (license (pkgs ! i)))"
    by (simp add: PackageCompat_def)
  with m r show ?thesis by (intro exI [of _ myTxt] exI [of _ myLice] exI [of _ rest] exI [of _ ?out]) simp
qed

theorem license_compat_is_verdict_witness:
  "GetPackages [''foo'', ''bar'', ''foo'']
     \<in> set (fst (getdepsLicenses (example_env 0 ''foo 1.0 a\<newline>bar 2.1 b\<newline>foo 1.0 a'' None))) \<and>
   getPackages (example_env 0 ''foo 1.0 a\<newline>bar 2.1 b\<newline>foo 1.0 a'' None)
     [''foo'', ''bar'', ''foo'']
     = Inr [example_package ''foo'', example_package ''bar'', example_package ''foo''] \<and>
   (\<exists>out. snd (getdepsLicenses (example_env 0 ''foo 1.0 a\<newline>bar 2.1 b\<newline>foo 1.0 a'' None))
            = Inr out \<and>
      license_compat (out ! 0) = example_depCompatibleLice Permissive (example_licenseType ''MIT'') \<and>
      license_compat (out ! 1) = example_depCompatibleLice Permissive (example_licenseType ''GPL-3.0'') \<and>
      license_compat (out ! 2) = example_depCompatibleLice Permissive (example_licenseType ''MIT''))"
proof -
  let ?E = "example_env 0 ''foo 1.0 a\<newline>bar 2.1 b\<newline>foo 1.0 a'' None"
  let ?pkgs = "[example_package ''foo'', example_package ''bar'', example_package ''foo'']"
  have h1: "GetPackages [''foo'', ''bar'', ''foo''] \<in> set (fst (getdepsLicenses ?E))"
    by (simp add: example_poetry_run)
  have h2: "getPackages ?E [''foo'', ''bar'', ''foo''] = Inr ?pkgs"
    by (simp add: example_env_def)
  from license_compat_is_verdict [OF h1 h2] obtain myLiceTxt myLice rest out where
    m: "getMyPackageLicense ?E = Inr myLiceTxt" "licenseType ?E myLiceTxt = myLice # rest" and
    r: "snd (getdepsLicenses ?E) = Inr out" and
    v: "\<forall>i<length ?pkgs. license_compat (out ! i) =
           depCompatibleLice ?E myLice (licenseType ?E (license (?pkgs ! i)))"
    by blast
  from m have my: "myLice = Permissive"
    by (simp add: example_env_def example_licenseType_def)
  from v have "license_compat (out ! 0) =
      depCompatibleLice ?E myLice (licenseType ?E (license (?pkgs ! 0)))"
    by simp
  moreover from v have "license_compat (out ! 1) =
      depCompatibleLice ?E myLice (licenseType ?E (license (?pkgs ! 1)))"
    by simp
  moreover from v have "license_compat (out ! 2) =
      depCompatibleLice ?E myLice (licenseType ?E (license (?pkgs ! 2)))"
    by simp
  ultimately show ?thesis using h1 h2 r my
    by (simp add: example_env_def example_package_def)
qed

text \<open>
  Claim C3. The license of the project is classified once, before the packages are
  fetched; the loop classifies the license of each dependency only, and every call of
  \<^verbatim>\<open>depCompatibleLice\<close> gets the same category of the project. A run that reaches the loop
  with \<open>N\<close> packages calls \<^verbatim>\<open>licenseType\<close> \<open>N + 1\<close> times.
\<close>

theorem project_license_classified_once:
  assumes "GetPackages reqs \<in> set (fst (getdepsLicenses E))"
    and "getPackages E reqs = Inr pkgs"
  shows "\<exists>pre myLiceTxt myLice rest.
      getMyPackageLicense E = Inr myLiceTxt \<and> licenseType E myLiceTxt = myLice # rest \<and>
      (\<forall>s. LicenseType s \<notin> set pre) \<and>
      fst (getdepsLicenses E) =
        pre @ [GetMyPackageLicense, LicenseType myLiceTxt, GetPackages reqs] @
        concat (map (\<lambda>p. [LicenseType (license p),
                            DepCompatibleLice myLice (licenseType E (license p))]) pkgs) \<and>
      length (filter (\<lambda>ev. case ev of LicenseType s \<Rightarrow> True | _ \<Rightarrow> False)
                (fst (getdepsLicenses E))) = Suc (length pkgs)"
proof -
  from getdeps_success [OF assms] obtain myTxt myLice rest where
    m: "getMyPackageLicense E = Inr myTxt" "licenseType E myTxt = myLice # rest" and
    t: "fst (getdepsLicenses E) =
        fst (get_reqs E) @ [GetMyPackageLicense, LicenseType myTxt, GetPackages reqs] @
        concat (map (\<lambda>p. [LicenseType (license p),
                            DepCompatibleLice myLice (licenseType E (license p))]) pkgs)"
    by fastforce
  have pre: "\<forall>s. LicenseType s \<notin> set (fst (get_reqs E))"
    using get_reqs_events by fastforce
  then have "filter (\<lambda>ev. case ev of LicenseType s \<Rightarrow> True | _ \<Rightarrow> False) (fst (get_reqs E)) = []"
    by (auto simp add: filter_empty_conv split: event.splits)
  moreover have "length (filter (\<lambda>ev. case ev of LicenseType s \<Rightarrow> True | _ \<Rightarrow> False)
        (concat (map (\<lambda>p. [LicenseType (license p),
                            DepCompatibleLice myLice (licenseType E (license p))]) pkgs)))
      = length pkgs"
    by (induction pkgs) simp_all
  ultimately have "length (filter (\<lambda>ev. case ev of LicenseType s \<Rightarrow> True | _ \<Rightarrow> False)
                (fst (getdepsLicenses E))) = Suc (length pkgs)"
    by (simp add: t)
  with m t pre show ?thesis by blast
qed

theorem project_license_classified_once_witness:
  "GetPackages [''foo'', ''bar'', ''foo'']
     \<in> set (fst (getdepsLicenses (example_env 0 ''foo 1.0 a\<newline>bar 2.1 b\<newline>foo 1.0 a'' None))) \<and>
   getPackages (example_env 0 ''foo 1.0 a\<newline>bar 2.1 b\<newline>foo 1.0 a'' None)
     [''foo'', ''bar'', ''foo'']
     = Inr [example_package ''foo'', example_package ''bar'', example_package ''foo''] \<and>
   length (filter (\<lambda>ev. case ev of LicenseType s \<Rightarrow> True | _ \<Rightarrow> False)
     (fst (getdepsLicenses (example_env 0 ''foo 1.0 a\<newline>bar 2.1 b\<newline>foo 1.0 a'' None)))) = 4"
proof -
  let ?E = "example_env 0 ''foo 1.0 a\<newline>bar 2.1 b\<newline>foo 1.0 a'' None"
  let ?pkgs = "[example_package ''foo'', example_package ''bar'', example_package ''foo'']"
  have h1: "GetPackages [''foo'', ''bar'', ''foo''] \<in> set (fst (getdepsLicenses ?E))"
    by (simp add: example_poetry_run)
  have h2: "getPackages ?E [''foo'', ''bar'', ''foo''] = Inr ?pkgs"
    by (simp add: example_env_def)
  from project_license_classified_once [OF h1 h2]
  have "length (filter (\<lambda>ev. case ev of LicenseType s \<Rightarrow> True | _ \<Rightarrow> False)
     (fst (getdepsLicenses ?E))) = Suc (length ?pkgs)"
    by blast
  with h1 h2 show ?thesis by simp
qed

text \<open>
  Claim C4, amended. \<^verbatim>\<open>licenseType\<close> returns a sequence of categories. The project side
  takes its first element (\<^verbatim>\<open>licenseType(myLiceTxt)[0]\<close>, an \<open>IndexError\<close> when the
  sequence is empty); \<^verbatim>\<open>depCompatibleLice\<close> is called once per dependency, with that one
  category of the project and the whole sequence of the dependency, and its result is the
  record's \<^verbatim>\<open>license_compat\<close>.
\<close>

theorem verdict_from_first_project_category_and_dep_sequence:
  assumes "snd (get_reqs E) = Inr reqs" and "getMyPackageLicense E = Inr myLiceTxt"
  shows "(licenseType E myLiceTxt = [] \<longrightarrow> snd (getdepsLicenses E) = Inl IndexError) \<and>
    (\<forall>myLice rest pkgs.
       licenseType E myLiceTxt = myLice # rest \<and> getPackages E reqs = Inr pkgs \<longrightarrow>
       filter (\<lambda>ev. case ev of DepCompatibleLice p ds \<Rightarrow> True | _ \<Rightarrow> False)
         (fst (getdepsLicenses E)) =
         map (\<lambda>p. DepCompatibleLice myLice (licenseType E (license p))) pkgs \<and>
       (\<exists>out. snd (getdepsLicenses E) = Inr out \<and>
          map license_compat out =
            map (\<lambda>p. depCompatibleLice E myLice (licenseType E (license p))) pkgs))"
proof (intro conjI impI allI)
  assume "licenseType E myLiceTxt = []"
  with assms show "snd (getdepsLicenses E) = Inl IndexError"
    by (simp add: getdeps_result assemble_def bind_def call_def)
next
  fix myLice rest pkgs
  assume a: "licenseType E myLiceTxt = myLice # rest \<and> getPackages E reqs = Inr pkgs"
  then have m: "licenseType E myLiceTxt = myLice # rest" and g: "getPackages E reqs = Inr pkgs"
    by simp_all
  note asm = assemble_reached [OF assms(2) m g]
  have pre: "filter (\<lambda>ev. case ev of DepCompatibleLice p ds \<Rightarrow> True | _ \<Rightarrow> False)
      (fst (get_reqs E)) = []"
    using get_reqs_events [of _ E] by (fastforce simp add: filter_empty_conv split: event.splits)
  have loop: "filter (\<lambda>ev. case ev of DepCompatibleLice p ds \<Rightarrow> True | _ \<Rightarrow> False)
      (concat (map (\<lambda>p. [LicenseType (license p),
                          DepCompatibleLice myLice (licenseType E (license p))]) pkgs)) =
      map (\<lambda>p. DepCompatibleLice myLice (licenseType E (license p))) pkgs"
    by (induction pkgs) simp_all
  show "filter (\<lambda>ev. case ev of DepCompatibleLice p ds \<Rightarrow> True | _ \<Rightarrow> False)
         (fst (getdepsLicenses E)) =
         map (\<lambda>p. DepCompatibleLice myLice (licenseType E (license p))) pkgs"
    using assms(1) by (simp add: getdeps_trace asm pre loop)
  show "\<exists>out. snd (getdepsLicenses E) = Inr out \<and>
          map license_compat out =
            map (\<lambda>p. depCompatibleLice E myLice (licenseType E (license p))) pkgs"
    using assms(1) by (simp add: getdeps_result asm comp_def PackageCompat_def)
qed

theorem verdict_from_first_project_category_and_dep_sequence_witness:
  "snd (get_reqs (example_env 0 ''baz 0.3'' None)) = Inr [''baz''] \<and>
   getMyPackageLicense (example_env 0 ''baz 0.3'' None) = Inr ''MIT'' \<and>
   licenseType (example_env 0 ''baz 0.3'' None) ''MIT'' = Permissive # [] \<and>
   getPackages (example_env 0 ''baz 0.3'' None) [''baz''] = Inr [example_package ''baz''] \<and>
   filter (\<lambda>ev. case ev of DepCompatibleLice p ds \<Rightarrow> True | _ \<Rightarrow> False)
     (fst (getdepsLicenses (example_env 0 ''baz 0.3'' None)))
     = [DepCompatibleLice Permissive [Permissive, StrongCopyleft]] \<and>
   (\<exists>out. snd (getdepsLicenses (example_env 0 ''baz 0.3'' None)) = Inr out \<and>
      map license_compat out = [False]) \<and>
   snd (get_reqs ((example_env 0 ''baz 0.3'' None)\<lparr>licenseType := \<lambda>s. []\<rparr>)) = Inr [''baz''] \<and>
   getMyPackageLicense ((example_env 0 ''baz 0.3'' None)\<lparr>licenseType := \<lambda>s. []\<rparr>) = Inr ''MIT'' \<and>
   licenseType ((example_env 0 ''baz 0.3'' None)\<lparr>licenseType := \<lambda>s. []\<rparr>) ''MIT'' = [] \<and>
   snd (getdepsLicenses ((example_env 0 ''baz 0.3'' None)\<lparr>licenseType := \<lambda>s. []\<rparr>))
     = Inl IndexError"
proof -
  let ?E = "example_env 0 ''baz 0.3'' None"
  let ?F = "?E\<lparr>licenseType := \<lambda>s. []\<rparr>"
  have h1: "snd (get_reqs ?E) = Inr [''baz'']"
    by (simp add: get_reqs_def doSysExec_def bind_def call_def ret_def example_env_def
        str_splitlines_def str_split_def isspace_def islinebreak_def)
  have h2: "getMyPackageLicense ?E = Inr ''MIT''"
    by (simp add: example_env_def)
  have h3: "licenseType ?E ''MIT'' = Permissive # []"
    by (simp add: example_env_def example_licenseType_def)
  have h4: "getPackages ?E [''baz''] = Inr [example_package ''baz'']"
    by (simp add: example_env_def)
  have k1: "snd (get_reqs ?F) = Inr [''baz'']"
    by (simp add: get_reqs_def doSysExec_def bind_def call_def ret_def example_env_def
        str_splitlines_def str_split_def isspace_def islinebreak_def)
  have k2: "getMyPackageLicense ?F = Inr ''MIT''"
    by (simp add: example_env_def)
  have k3: "licenseType ?F ''MIT'' = []"
    by simp
  from verdict_from_first_project_category_and_dep_sequence [OF h1 h2] h3 h4
  have a: "filter (\<lambda>ev. case ev of DepCompatibleLice p ds \<Rightarrow> True | _ \<Rightarrow> False)
         (fst (getdepsLicenses ?E)) =
         map (\<lambda>p. DepCompatibleLice Permissive (licenseType ?E (license p))) [example_package ''baz''] \<and>
       (\<exists>out. snd (getdepsLicenses ?E) = Inr out \<and>
          map license_compat out =
            map (\<lambda>p. depCompatibleLice ?E Permissive (licenseType ?E (license p)))
              [example_package ''baz''])"
    by blast
  have e: "map (\<lambda>p. DepCompatibleLice Permissive (licenseType ?E (license p))) [example_package ''baz'']
      = [DepCompatibleLice Permissive [Permissive, StrongCopyleft]]"
    "map (\<lambda>p. depCompatibleLice ?E Permissive (licenseType ?E (license p)))
              [example_package ''baz''] = [False]"
    by (simp_all add: example_env_def example_package_def example_licenseType_def
        example_depCompatibleLice_def)
  from verdict_from_first_project_category_and_dep_sequence [OF k1 k2] k3
  have b: "snd (getdepsLicenses ?F) = Inl IndexError"
    by blast
  from a e b h1 h2 h3 h4 k1 k2 k3 show ?thesis by simp
qed

lemma example_multi_run:
  "getdepsLicenses (example_env 0 ''baz 0.3'' None) =
    ([Exec ''poetry -h'', Exec ''poetry show'', GetMyPackageLicense, LicenseType ''MIT'',
      GetPackages [''baz''],
      LicenseType ''MIT, GPL-3.0'', DepCompatibleLice Permissive [Permissive, StrongCopyleft]],
     Inr [PackageCompat (example_package ''baz'') False])"
  by (simp add: getdepsLicenses_def get_reqs_def assemble_def doSysExec_def bind_def call_def
      ret_def example_env_def str_splitlines_def str_split_def isspace_def islinebreak_def
      example_licenseType_def example_depCompatibleLice_def example_package_def PackageCompat_def)

text \<open>
  Claim C4 as stated fails: the compatibility function is not applied to exactly one
  category of the dependency. In the run below the classifier returns two categories for
  the license text of \<^verbatim>\<open>baz\<close>, \<^verbatim>\<open>depCompatibleLice\<close> receives both, and the verdict
  (\<open>False\<close>) differs from the one for the first category alone (\<open>True\<close>).
\<close>

theorem single_dep_category_counterexample:
  "DepCompatibleLice Permissive [Permissive, StrongCopyleft]
     \<in> set (fst (getdepsLicenses (example_env 0 ''baz 0.3'' None))) \<and>
   length [Permissive, StrongCopyleft] \<noteq> Suc 0 \<and>
   licenseType (example_env 0 ''baz 0.3'' None) ''MIT, GPL-3.0'' = [Permissive, StrongCopyleft] \<and>
   snd (getdepsLicenses (example_env 0 ''baz 0.3'' None))
     = Inr [PackageCompat (example_package ''baz'') False] \<and>
   depCompatibleLice (example_env 0 ''baz 0.3'' None) Permissive [Permissive] = True"
  by (simp add: example_multi_run)
     (simp add: example_env_def example_licenseType_def example_depCompatibleLice_def
        PackageCompat_def)

text \<open>
  Claim C7, amended. \<^verbatim>\<open>getdepsLicenses\<close> does not absorb a failed lookup. When the
  requirements are known and the project's license is classified, an exception raised by
  \<^verbatim>\<open>getPackages\<close> ends the function with that exception, and no record is produced for
  any dependency; when \<^verbatim>\<open>getPackages\<close> returns, every package it returns gets a
  record with the verdict computed from its own license text, with no special case.
\<close>

theorem lookup_failure_is_not_absorbed:
  assumes "snd (get_reqs E) = Inr reqs" and "getMyPackageLicense E = Inr myLiceTxt"
    and "licenseType E myLiceTxt = myLice # rest"
  shows "(\<forall>e. getPackages E reqs = Inl e \<longrightarrow>
            getdepsLicenses E =
              (fst (get_reqs E) @ [GetMyPackageLicense, LicenseType myLiceTxt, GetPackages reqs],
               Inl e)) \<and>
         (\<forall>pkgs. getPackages E reqs = Inr pkgs \<longrightarrow>
            snd (getdepsLicenses E) =
              Inr (map (\<lambda>p. PackageCompat p
                         (depCompatibleLice E myLice (licenseType E (license p)))) pkgs))"
proof (intro conjI allI impI)
  fix e
  assume "getPackages E reqs = Inl e"
  with assms show "getdepsLicenses E =
              (fst (get_reqs E) @ [GetMyPackageLicense, LicenseType myLiceTxt, GetPackages reqs],
               Inl e)"
    by (simp add: prod_eq_iff getdeps_trace getdeps_result assemble_def bind_def call_def)
next
  fix pkgs
  assume "getPackages E reqs = Inr pkgs"
  from assemble_reached [OF assms(2,3) this] assms(1)
  show "snd (getdepsLicenses E) =
              Inr (map (\<lambda>p. PackageCompat p
                         (depCompatibleLice E myLice (licenseType E (license p)))) pkgs)"
    by (simp add: getdeps_result)
qed

theorem lookup_failure_is_not_absorbed_witness:
  "snd (get_reqs ((example_env 0 ''foo 1.0 a\<newline>ghost 0.1'' None)
      \<lparr>getPackages := \<lambda>reqs. if ''ghost'' \<in> set reqs then Inl (Raised ''ModuleNotFoundError'')
                               else Inr (map example_package reqs)\<rparr>)) = Inr [''foo'', ''ghost''] \<and>
   getdepsLicenses ((example_env 0 ''foo 1.0 a\<newline>ghost 0.1'' None)
      \<lparr>getPackages := \<lambda>reqs. if ''ghost'' \<in> set reqs then Inl (Raised ''ModuleNotFoundError'')
                               else Inr (map example_package reqs)\<rparr>) =
    ([Exec ''poetry -h'', Exec ''poetry show'', GetMyPackageLicense, LicenseType ''MIT'',
      GetPackages [''foo'', ''ghost'']],
     Inl (Raised ''ModuleNotFoundError'')) \<and>
   snd (get_reqs (example_env 0 ''foo 1.0 a\<newline>unheard 0.1'' None)) = Inr [''foo'', ''unheard''] \<and>
   getPackages (example_env 0 ''foo 1.0 a\<newline>unheard 0.1'' None) [''foo'', ''unheard'']
     = Inr [example_package ''foo'', example_package ''unheard''] \<and>
   snd (getdepsLicenses (example_env 0 ''foo 1.0 a\<newline>unheard 0.1'' None))
     = Inr [PackageCompat (example_package ''foo'') True,
            PackageCompat (example_package ''unheard'') False]"
proof -
  let ?F = "(example_env 0 ''foo 1.0 a\<newline>ghost 0.1'' None)
      \<lparr>getPackages := \<lambda>reqs. if ''ghost'' \<in> set reqs then Inl (Raised ''ModuleNotFoundError'')
                               else Inr (map example_package reqs)\<rparr>"
  let ?U = "example_env 0 ''foo 1.0 a\<newline>unheard 0.1'' None"
  have f1: "get_reqs ?F = ([Exec ''poetry -h'', Exec ''poetry show''], Inr [''foo'', ''ghost''])"
    by (simp add: get_reqs_def doSysExec_def bind_def call_def ret_def example_env_def
        str_splitlines_def str_split_def isspace_def islinebreak_def)
  have f2: "getMyPackageLicense ?F = Inr ''MIT''" by (simp add: example_env_def)
  have f3: "licenseType ?F ''MIT'' = Permissive # []"
    by (simp add: example_env_def example_licenseType_def)
  have f4: "getPackages ?F [''foo'', ''ghost''] = Inl (Raised ''ModuleNotFoundError'')"
    by simp
  have u1: "get_reqs ?U = ([Exec ''poetry -h'', Exec ''poetry show''], Inr [''foo'', ''unheard''])"
    by (simp add: get_reqs_def doSysExec_def bind_def call_def ret_def example_env_def
        str_splitlines_def str_split_def isspace_def islinebreak_def)
  have u2: "getMyPackageLicense ?U = Inr ''MIT''" by (simp add: example_env_def)
  have u3: "licenseType ?U ''MIT'' = Permissive # []"
    by (simp add: example_env_def example_licenseType_def)
  have u4: "getPackages ?U [''foo'', ''unheard'']
      = Inr [example_package ''foo'', example_package ''unheard'']"
    by (simp add: example_env_def)
  have g1: "snd (get_reqs ?F) = Inr [''foo'', ''ghost'']" by (simp add: f1)
  have v1: "snd (get_reqs ?U) = Inr [''foo'', ''unheard'']" by (simp add: u1)
  from lookup_failure_is_not_absorbed [OF g1 f2 f3] f4
  have "getdepsLicenses ?F =
      (fst (get_reqs ?F) @ [GetMyPackageLicense, LicenseType ''MIT'', GetPackages [''foo'', ''ghost'']],
       Inl (Raised ''ModuleNotFoundError''))"
    by blast
  then have a: "getdepsLicenses ?F =
    ([Exec ''poetry -h'', Exec ''poetry show'', GetMyPackageLicense, LicenseType ''MIT'',
      GetPackages [''foo'', ''ghost'']],
     Inl (Raised ''ModuleNotFoundError''))"
    by (simp add: f1)
  from lookup_failure_is_not_absorbed [OF v1 u2 u3] u4
  have "snd (getdepsLicenses ?U) =
      Inr (map (\<lambda>p. PackageCompat p
                 (depCompatibleLice ?U Permissive (licenseType ?U (license p))))
             [example_package ''foo'', example_package ''unheard''])"
    by blast
  then have b: "snd (getdepsLicenses ?U)
     = Inr [PackageCompat (example_package ''foo'') True,
            PackageCompat (example_package ''unheard'') False]"
    by (simp add: example_env_def example_package_def example_licenseType_def
        example_depCompatibleLice_def)
  from g1 a v1 u4 b show ?thesis by blast
qed

lemma example_failed_lookup_run:
  "getdepsLicenses ((example_env 0 ''foo 1.0 a\<newline>ghost 0.1'' None)
      \<lparr>getPackages := \<lambda>reqs. if ''ghost'' \<in> set reqs then Inl (Raised ''ModuleNotFoundError'')
                               else Inr (map example_package reqs)\<rparr>) =
    ([Exec ''poetry -h'', Exec ''poetry show'', GetMyPackageLicense, LicenseType ''MIT'',
      GetPackages [''foo'', ''ghost'']],
     Inl (Raised ''ModuleNotFoundError''))"
  by (simp add: getdepsLicenses_def get_reqs_def assemble_def doSysExec_def bind_def call_def
      ret_def example_env_def str_splitlines_def str_split_def isspace_def islinebreak_def
      example_licenseType_def)

text \<open>
  Claim C7 as stated fails: in the run below the lookup raises for the requirement
  \<^verbatim>\<open>ghost\<close>; \<^verbatim>\<open>getdepsLicenses\<close> ends with that exception, and neither \<^verbatim>\<open>ghost\<close> nor
  \<^verbatim>\<open>foo\<close> gets a record.
\<close>

theorem failed_lookup_aborts_counterexample:
  "getPackages ((example_env 0 ''foo 1.0 a\<newline>ghost 0.1'' None)
      \<lparr>getPackages := \<lambda>reqs. if ''ghost'' \<in> set reqs then Inl (Raised ''ModuleNotFoundError'')
                               else Inr (map example_package reqs)\<rparr>) [''foo'', ''ghost'']
     = Inl (Raised ''ModuleNotFoundError'') \<and>
   GetPackages [''foo'', ''ghost''] \<in> set (fst (getdepsLicenses
     ((example_env 0 ''foo 1.0 a\<newline>ghost 0.1'' None)
      \<lparr>getPackages := \<lambda>reqs. if ''ghost'' \<in> set reqs then Inl (Raised ''ModuleNotFoundError'')
                               else Inr (map example_package reqs)\<rparr>))) \<and>
   snd (getdepsLicenses ((example_env 0 ''foo 1.0 a\<newline>ghost 0.1'' None)
      \<lparr>getPackages := \<lambda>reqs. if ''ghost'' \<in> set reqs then Inl (Raised ''ModuleNotFoundError'')
                               else Inr (map example_package reqs)\<rparr>))
     = Inl (Raised ''ModuleNotFoundError'')"
  by (simp add: example_failed_lookup_run)

lemma example_requirements_run:
  "getdepsLicenses (example_env 1 [] (Some ''foo\<newline>bar'')) =
    ([Exec ''poetry -h'', Warn ''poetry is not on the system path'',
      Open ''requirements.txt'' ''r'', RequirementsParse ''foo\<newline>bar'',
      GetMyPackageLicense, LicenseType ''MIT'', GetPackages [''foo'', ''bar''],
      LicenseType ''MIT'', DepCompatibleLice Permissive [Permissive],
      LicenseType ''GPL-3.0'', DepCompatibleLice Permissive [StrongCopyleft]],
     Inr [PackageCompat (example_package ''foo'') True,
          PackageCompat (example_package ''bar'') False])"
  by (simp add: getdepsLicenses_def get_reqs_def assemble_def doSysExec_def bind_def call_def
      ret_def example_env_def str_splitlines_def str_split_def isspace_def islinebreak_def
      example_licenseType_def example_depCompatibleLice_def example_package_def PackageCompat_def)

text \<open>
  Claim C8. The requirements come from one of two sources, chosen by the exit code of
  \<^verbatim>\<open>poetry -h\<close>: on exit code 0 from the output of \<^verbatim>\<open>poetry show\<close>, and no file is
  opened; otherwise from \<^verbatim>\<open>requirements.txt\<close>, after a warning, and \<^verbatim>\<open>poetry show\<close> is
  not run. When poetry is absent and \<^verbatim>\<open>requirements.txt\<close> cannot be opened, the function
  ends with the \<open>OSError\<close> of \<^verbatim>\<open>open\<close> and returns no report.
\<close>

theorem requirements_from_poetry_else_requirements_txt:
  "(fst (popen E ''poetry -h'') = 0 \<longrightarrow>
      take 2 (fst (getdepsLicenses E)) = [Exec ''poetry -h'', Exec ''poetry show''] \<and>
      (\<forall>path mode. Open path mode \<notin> set (fst (getdepsLicenses E))) \<and>
      (\<forall>reqs. GetPackages reqs \<in> set (fst (getdepsLicenses E)) \<longrightarrow>
         poetry_loop [] (str_splitlines (snd (popen E ''poetry show''))) = Inr reqs)) \<and>
   (fst (popen E ''poetry -h'') \<noteq> 0 \<longrightarrow>
      take 3 (fst (getdepsLicenses E)) =
        [Exec ''poetry -h'', Warn ''poetry is not on the system path'',
         Open ''requirements.txt'' ''r''] \<and>
      Exec ''poetry show'' \<notin> set (fst (getdepsLicenses E)) \<and>
      (\<forall>reqs. GetPackages reqs \<in> set (fst (getdepsLicenses E)) \<longrightarrow>
         (\<exists>txt. read_file E ''requirements.txt'' = Some txt \<and>
                requirements_parse E txt = Inr reqs))) \<and>
   (fst (popen E ''poetry -h'') \<noteq> 0 \<and> read_file E ''requirements.txt'' = None \<longrightarrow>
      getdepsLicenses E =
        ([Exec ''poetry -h'', Warn ''poetry is not on the system path'',
          Open ''requirements.txt'' ''r''], Inl OSError))"
proof (intro conjI impI allI)
  assume p: "fst (popen E ''poetry -h'') = 0"
  note g = get_reqs_poetry [OF p]
  show "take 2 (fst (getdepsLicenses E)) = [Exec ''poetry -h'', Exec ''poetry show'']"
    by (simp add: getdeps_trace g split: sum.splits)
  show "Open path mode \<notin> set (fst (getdepsLicenses E))" for path mode
    using assemble_events [of "Open path mode" E]
    by (auto simp add: getdeps_trace g split: sum.splits)
  show "poetry_loop [] (str_splitlines (snd (popen E ''poetry show''))) = Inr reqs"
    if "GetPackages reqs \<in> set (fst (getdepsLicenses E))" for reqs
    using getdeps_reached [OF that] by (simp add: g)
next
  assume p: "fst (popen E ''poetry -h'') \<noteq> 0"
  note g = get_reqs_requirements [OF p]
  show "take 3 (fst (getdepsLicenses E)) =
        [Exec ''poetry -h'', Warn ''poetry is not on the system path'',
         Open ''requirements.txt'' ''r'']"
    by (simp add: getdeps_trace g split: sum.splits option.splits)
  show "Exec ''poetry show'' \<notin> set (fst (getdepsLicenses E))"
    using assemble_events [of "Exec ''poetry show''" E]
    by (auto simp add: getdeps_trace g split: sum.splits option.splits)
  show "\<exists>txt. read_file E ''requirements.txt'' = Some txt \<and>
                requirements_parse E txt = Inr reqs"
    if "GetPackages reqs \<in> set (fst (getdepsLicenses E))" for reqs
    using getdeps_reached [OF that] by (simp add: g split: option.splits)
next
  assume "fst (popen E ''poetry -h'') \<noteq> 0 \<and> read_file E ''requirements.txt'' = None"
  then show "getdepsLicenses E =
        ([Exec ''poetry -h'', Warn ''poetry is not on the system path'',
          Open ''requirements.txt'' ''r''], Inl OSError)"
    by (simp add: prod_eq_iff getdeps_trace getdeps_result get_reqs_requirements)
qed

theorem requirements_from_poetry_else_requirements_txt_witness:
  "fst (popen (example_env 0 ''foo 1.0 a\<newline>bar 2.1 b\<newline>foo 1.0 a'' None) ''poetry -h'') = 0 \<and>
   take 2 (fst (getdepsLicenses (example_env 0 ''foo 1.0 a\<newline>bar 2.1 b\<newline>foo 1.0 a'' None)))
     = [Exec ''poetry -h'', Exec ''poetry show''] \<and>
   GetPackages [''foo'', ''bar'', ''foo'']
     \<in> set (fst (getdepsLicenses (example_env 0 ''foo 1.0 a\<newline>bar 2.1 b\<newline>foo 1.0 a'' None))) \<and>
   poetry_loop [] (str_splitlines (snd (popen
       (example_env 0 ''foo 1.0 a\<newline>bar 2.1 b\<newline>foo 1.0 a'' None) ''poetry show'')))
     = Inr [''foo'', ''bar'', ''foo''] \<and>
   fst (popen (example_env 1 [] (Some ''foo\<newline>bar'')) ''poetry -h'') \<noteq> 0 \<and>
   take 3 (fst (getdepsLicenses (example_env 1 [] (Some ''foo\<newline>bar''))))
     = [Exec ''poetry -h'', Warn ''poetry is not on the system path'',
        Open ''requirements.txt'' ''r''] \<and>
   GetPackages [''foo'', ''bar''] \<in> set (fst (getdepsLicenses (example_env 1 [] (Some ''foo\<newline>bar'')))) \<and>
   requirements_parse (example_env 1 [] (Some ''foo\<newline>bar'')) ''foo\<newline>bar'' = Inr [''foo'', ''bar''] \<and>
   fst (popen (example_env 1 [] None) ''poetry -h'') \<noteq> 0 \<and>
   read_file (example_env 1 [] None) ''requirements.txt'' = None \<and>
   getdepsLicenses (example_env 1 [] None) =
     ([Exec ''poetry -h'', Warn ''poetry is not on the system path'',
       Open ''requirements.txt'' ''r''], Inl OSError)"
proof -
  let ?P = "example_env 0 ''foo 1.0 a\<newline>bar 2.1 b\<newline>foo 1.0 a'' None"
  let ?R = "example_env 1 [] (Some ''foo\<newline>bar'')"
  let ?N = "example_env 1 [] None"
  have p0: "fst (popen ?P ''poetry -h'') = 0" by (simp add: example_env_def)
  have p1: "GetPackages [''foo'', ''bar'', ''foo''] \<in> set (fst (getdepsLicenses ?P))"
    by (simp add: example_poetry_run)
  have r0: "fst (popen ?R ''poetry -h'') \<noteq> 0" by (simp add: example_env_def)
  have r1: "GetPackages [''foo'', ''bar''] \<in> set (fst (getdepsLicenses ?R))"
    by (simp add: example_requirements_run)
  have r2: "read_file ?R ''requirements.txt'' = Some ''foo\<newline>bar''"
    by (simp add: example_env_def)
  have n0: "fst (popen ?N ''poetry -h'') \<noteq> 0" by (simp add: example_env_def)
  have n1: "read_file ?N ''requirements.txt'' = None" by (simp add: example_env_def)
  from requirements_from_poetry_else_requirements_txt [of ?P] p0 p1
  have a: "take 2 (fst (getdepsLicenses ?P)) = [Exec ''poetry -h'', Exec ''poetry show'']"
    "poetry_loop [] (str_splitlines (snd (popen ?P ''poetry show''))) = Inr [''foo'', ''bar'', ''foo'']"
    by blast+
  from requirements_from_poetry_else_requirements_txt [of ?R] r0 r1
  have b: "take 3 (fst (getdepsLicenses ?R))
     = [Exec ''poetry -h'', Warn ''poetry is not on the system path'',
        Open ''requirements.txt'' ''r'']"
    "\<exists>txt. read_file ?R ''requirements.txt'' = Some txt \<and>
           requirements_parse ?R txt = Inr [''foo'', ''bar'']"
    by blast+
  from b(2) r2 have b2: "requirements_parse ?R ''foo\<newline>bar'' = Inr [''foo'', ''bar'']"
    by simp
  from requirements_from_poetry_else_requirements_txt [of ?N] n0 n1
  have c: "getdepsLicenses ?N =
     ([Exec ''poetry -h'', Warn ''poetry is not on the system path'',
       Open ''requirements.txt'' ''r''], Inl OSError)"
    by blast
  from p0 p1 a r0 r1 b(1) b2 n0 n1 c show ?thesis by blast
qed

text \<open>
  Claim C9. With poetry installed, the name of a requirement is the first word of a line
  of the output of \<^verbatim>\<open>poetry show\<close>: the line without its leading whitespace, up to the
  next whitespace. When every line holds a word, the requirements are these first words,
  line by line. When some line is empty or holds whitespace only, \<^verbatim>\<open>parts[0]\<close> raises
  \<open>IndexError\<close> and \<^verbatim>\<open>getdepsLicenses\<close> ends with it: the line is not skipped.
\<close>

theorem poetry_show_first_word_or_IndexError:
  assumes "fst (popen E ''poetry -h'') = 0"
  shows "((\<forall>l\<in>set (str_splitlines (snd (popen E ''poetry show''))). \<exists>c\<in>set l. \<not> isspace c) \<longrightarrow>
          get_reqs E =
            ([Exec ''poetry -h'', Exec ''poetry show''],
             Inr (map (\<lambda>l. takeWhile (\<lambda>c. \<not> isspace c) (dropWhile isspace l))
                    (str_splitlines (snd (popen E ''poetry show'')))))) \<and>
         ((\<exists>l\<in>set (str_splitlines (snd (popen E ''poetry show''))). \<forall>c\<in>set l. isspace c) \<longrightarrow>
          getdepsLicenses E = ([Exec ''poetry -h'', Exec ''poetry show''], Inl IndexError))"
proof (intro conjI impI)
  assume "\<forall>l\<in>set (str_splitlines (snd (popen E ''poetry show''))). \<exists>c\<in>set l. \<not> isspace c"
  from poetry_loop_ok [OF this, of "[]"] show "get_reqs E =
            ([Exec ''poetry -h'', Exec ''poetry show''],
             Inr (map (\<lambda>l. takeWhile (\<lambda>c. \<not> isspace c) (dropWhile isspace l))
                    (str_splitlines (snd (popen E ''poetry show'')))))"
    by (simp add: get_reqs_poetry [OF assms])
next
  assume "\<exists>l\<in>set (str_splitlines (snd (popen E ''poetry show''))). \<forall>c\<in>set l. isspace c"
  from poetry_loop_blank [OF this, of "[]"]
  show "getdepsLicenses E = ([Exec ''poetry -h'', Exec ''poetry show''], Inl IndexError)"
    by (simp add: prod_eq_iff getdeps_trace getdeps_result get_reqs_poetry [OF assms])
qed

theorem poetry_show_first_word_or_IndexError_witness:
  "fst (popen (example_env 0 ''  foo 1.0 a\<newline>bar 2.1 b'' None) ''poetry -h'') = 0 \<and>
   str_splitlines (snd (popen (example_env 0 ''  foo 1.0 a\<newline>bar 2.1 b'' None) ''poetry show''))
     = [''  foo 1.0 a'', ''bar 2.1 b''] \<and>
   get_reqs (example_env 0 ''  foo 1.0 a\<newline>bar 2.1 b'' None)
     = ([Exec ''poetry -h'', Exec ''poetry show''], Inr [''foo'', ''bar'']) \<and>
   fst (popen (example_env 0 ''foo 1.0 a\<newline>\<newline>bar 2.1 b'' None) ''poetry -h'') = 0 \<and>
   str_splitlines (snd (popen (example_env 0 ''foo 1.0 a\<newline>\<newline>bar 2.1 b'' None) ''poetry show''))
     = [''foo 1.0 a'', [], ''bar 2.1 b''] \<and>
   getdepsLicenses (example_env 0 ''foo 1.0 a\<newline>\<newline>bar 2.1 b'' None)
     = ([Exec ''poetry -h'', Exec ''poetry show''], Inl IndexError)"
proof -
  let ?G = "example_env 0 ''  foo 1.0 a\<newline>bar 2.1 b'' None"
  let ?B = "example_env 0 ''foo 1.0 a\<newline>\<newline>bar 2.1 b'' None"
  have g0: "fst (popen ?G ''poetry -h'') = 0" by (simp add: example_env_def)
  have g1: "str_splitlines (snd (popen ?G ''poetry show'')) = [''  foo 1.0 a'', ''bar 2.1 b'']"
    by (simp add: example_env_def str_splitlines_def islinebreak_def)
  have g2: "\<forall>l\<in>set (str_splitlines (snd (popen ?G ''poetry show''))). \<exists>c\<in>set l. \<not> isspace c"
    unfolding g1 by (simp add: isspace_def)
  have b0: "fst (popen ?B ''poetry -h'') = 0" by (simp add: example_env_def)
  have b1: "str_splitlines (snd (popen ?B ''poetry show'')) = [''foo 1.0 a'', [], ''bar 2.1 b'']"
    by (simp add: example_env_def str_splitlines_def islinebreak_def)
  have b2: "\<exists>l\<in>set (str_splitlines (snd (popen ?B ''poetry show''))). \<forall>c\<in>set l. isspace c"
    unfolding b1 by simp
  from poetry_show_first_word_or_IndexError [OF g0] g2
  have "get_reqs ?G =
            ([Exec ''poetry -h'', Exec ''poetry show''],
             Inr (map (\<lambda>l. takeWhile (\<lambda>c. \<not> isspace c) (dropWhile isspace l))
                    (str_splitlines (snd (popen ?G ''poetry show'')))))"
    by blast
  then have a: "get_reqs ?G = ([Exec ''poetry -h'', Exec ''poetry show''], Inr [''foo'', ''bar''])"
    unfolding g1 by (simp add: isspace_def)
  from poetry_show_first_word_or_IndexError [OF b0] b2
  have b: "getdepsLicenses ?B = ([Exec ''poetry -h'', Exec ''poetry show''], Inl IndexError)"
    by blast
  from g0 g1 a b0 b1 b show ?thesis by blast
qed

lemma formatMap_lookup_None:
  "fmt \<notin> {''simple'', ''ansi'', ''json'', ''markdown'', ''csv''} \<Longrightarrow>
   map_of (formatMap E) fmt = None"
  by (simp add: formatMap_def)

text \<open>
  Claim C10, amended. When \<^verbatim>\<open>--file\<close> is omitted or names a file that can be opened for
  writing: for every \<^verbatim>\<open>--format\<close> value outside simple, ansi, json, markdown and csv,
  \<^verbatim>\<open>cli\<close> prints the format help text to the standard output and exits with status 1,
  and \<^verbatim>\<open>getdepsLicenses\<close> is not called (the file, if given, has been opened before);
  when \<^verbatim>\<open>--format\<close> is omitted, the report of \<^verbatim>\<open>getdepsLicenses\<close> is printed by the
  simple formatter. When the file cannot be opened, \<^verbatim>\<open>cli\<close> ends with the \<open>OSError\<close> of
  \<^verbatim>\<open>open\<close> before it looks at the format.
\<close>

theorem cli_format_handling:
  "(\<forall>fmt. arg_format a = Some fmt \<and>
          fmt \<notin> {''simple'', ''ansi'', ''json'', ''markdown'', ''csv''} \<and>
          (arg_file a = None \<or> (\<exists>path. arg_file a = Some path \<and> can_write E path)) \<longrightarrow>
      cli E a =
        ((case arg_file a of None \<Rightarrow> [] | Some path \<Rightarrow> [Open path ''w'']) @
         [Print Stdout FORMAT_HELP], Inl (SystemExit 1))) \<and>
   (\<forall>deps. arg_format a = None \<and> snd (getdepsLicenses E) = Inr deps \<and>
          (arg_file a = None \<or> (\<exists>path. arg_file a = Some path \<and> can_write E path)) \<longrightarrow>
      cli E a =
        ((case arg_file a of None \<Rightarrow> [] | Some path \<Rightarrow> [Open path ''w'']) @
         fst (getdepsLicenses E) @
         [Print (case arg_file a of None \<Rightarrow> Stdout | Some path \<Rightarrow> File path)
            (formatter_simple E deps)], Inr ())) \<and>
   (\<forall>path. arg_file a = Some path \<and> \<not> can_write E path \<longrightarrow>
      cli E a = ([Open path ''w''], Inl OSError))"
proof (intro conjI allI impI)
  fix fmt
  assume h: "arg_format a = Some fmt \<and>
          fmt \<notin> {''simple'', ''ansi'', ''json'', ''markdown'', ''csv''} \<and>
          (arg_file a = None \<or> (\<exists>path. arg_file a = Some path \<and> can_write E path))"
  then have "map_of (formatMap E) fmt = None"
    by (simp add: formatMap_lookup_None)
  with h show "cli E a =
        ((case arg_file a of None \<Rightarrow> [] | Some path \<Rightarrow> [Open path ''w'']) @
         [Print Stdout FORMAT_HELP], Inl (SystemExit 1))"
    by (auto simp add: cli_def bind_def call_def ret_def)
next
  fix deps
  assume h: "arg_format a = None \<and> snd (getdepsLicenses E) = Inr deps \<and>
          (arg_file a = None \<or> (\<exists>path. arg_file a = Some path \<and> can_write E path))"
  then have "getdepsLicenses E = (fst (getdepsLicenses E), Inr deps)"
    by (simp add: prod_eq_iff)
  then obtain tr where g: "getdepsLicenses E = (tr, Inr deps)" ..
  with h show "cli E a =
        ((case arg_file a of None \<Rightarrow> [] | Some path \<Rightarrow> [Open path ''w'']) @
         fst (getdepsLicenses E) @
         [Print (case arg_file a of None \<Rightarrow> Stdout | Some path \<Rightarrow> File path)
            (formatter_simple E deps)], Inr ())"
    by (auto simp add: cli_def bind_def call_def ret_def)
next
  fix path
  assume "arg_file a = Some path \<and> \<not> can_write E path"
  then show "cli E a = ([Open path ''w''], Inl OSError)"
    by (simp add: cli_def bind_def call_def)
qed

theorem cli_format_handling_witness:
  "arg_format \<lparr>arg_format = Some ''xml'', arg_file = None\<rparr> = Some ''xml'' \<and>
   ''xml'' \<notin> {''simple'', ''ansi'', ''json'', ''markdown'', ''csv''} \<and>
   arg_file \<lparr>arg_format = Some ''xml'', arg_file = None\<rparr> = None \<and>
   cli (example_env 0 ''foo 1.0 a'' None) \<lparr>arg_format = Some ''xml'', arg_file = None\<rparr>
     = ([Print Stdout FORMAT_HELP], Inl (SystemExit 1)) \<and>
   can_write (example_env 0 ''foo 1.0 a'' None) ''report.txt'' \<and>
   cli (example_env 0 ''foo 1.0 a'' None)
       \<lparr>arg_format = Some ''xml'', arg_file = Some ''report.txt''\<rparr>
     = ([Open ''report.txt'' ''w'', Print Stdout FORMAT_HELP], Inl (SystemExit 1)) \<and>
   snd (getdepsLicenses (example_env 0 ''baz 0.3'' None))
     = Inr [PackageCompat (example_package ''baz'') False] \<and>
   cli (example_env 0 ''baz 0.3'' None) \<lparr>arg_format = None, arg_file = Some ''report.txt''\<rparr>
     = ([Open ''report.txt'' ''w'', Exec ''poetry -h'', Exec ''poetry show'', GetMyPackageLicense,
         LicenseType ''MIT'', GetPackages [''baz''], LicenseType ''MIT, GPL-3.0'',
         DepCompatibleLice Permissive [Permissive, StrongCopyleft],
         Print (File ''report.txt'') ''simple''], Inr ()) \<and>
   \<not> can_write (example_env 0 ''foo 1.0 a'' None) ''missing/report.txt'' \<and>
   cli (example_env 0 ''foo 1.0 a'' None)
       \<lparr>arg_format = None, arg_file = Some ''missing/report.txt''\<rparr>
     = ([Open ''missing/report.txt'' ''w''], Inl OSError)"
proof -
  let ?E = "example_env 0 ''foo 1.0 a'' None"
  let ?M = "example_env 0 ''baz 0.3'' None"
  let ?a1 = "\<lparr>arg_format = Some ''xml'', arg_file = None\<rparr>"
  let ?a2 = "\<lparr>arg_format = Some ''xml'', arg_file = Some ''report.txt''\<rparr>"
  let ?a3 = "\<lparr>arg_format = None, arg_file = Some ''report.txt''\<rparr>"
  let ?a4 = "\<lparr>arg_format = None, arg_file = Some ''missing/report.txt''\<rparr>"
  have x: "''xml'' \<notin> {''simple'', ''ansi'', ''json'', ''markdown'', ''csv''}" by simp
  have w: "can_write ?E ''report.txt''" "can_write ?M ''report.txt''"
    "\<not> can_write ?E ''missing/report.txt''"
    by (simp_all add: example_env_def)
  have r: "snd (getdepsLicenses ?M) = Inr [PackageCompat (example_package ''baz'') False]"
    by (simp add: example_multi_run)
  have f: "formatter_simple ?M [PackageCompat (example_package ''baz'') False] = ''simple''"
    by (simp add: example_env_def)
  from cli_format_handling [of ?a1 ?E] x
  have c1: "cli ?E ?a1 = ([Print Stdout FORMAT_HELP], Inl (SystemExit 1))"
    by simp
  from cli_format_handling [of ?a2 ?E] x w(1)
  have c2: "cli ?E ?a2 = ([Open ''report.txt'' ''w'', Print Stdout FORMAT_HELP], Inl (SystemExit 1))"
    by simp
  from cli_format_handling [of ?a3 ?M] r w(2)
  have "cli ?M ?a3 = ([Open ''report.txt'' ''w''] @ fst (getdepsLicenses ?M) @
         [Print (File ''report.txt'')
            (formatter_simple ?M [PackageCompat (example_package ''baz'') False])], Inr ())"
    by simp
  then have c3: "cli ?M ?a3 =
      ([Open ''report.txt'' ''w'', Exec ''poetry -h'', Exec ''poetry show'', GetMyPackageLicense,
         LicenseType ''MIT'', GetPackages [''baz''], LicenseType ''MIT, GPL-3.0'',
         DepCompatibleLice Permissive [Permissive, StrongCopyleft],
         Print (File ''report.txt'') ''simple''], Inr ())"
    by (simp add: f example_multi_run)
  from cli_format_handling [of ?a4 ?E] w(3)
  have c4: "cli ?E ?a4 = ([Open ''missing/report.txt'' ''w''], Inl OSError)"
    by simp
  from x w r c1 c2 c3 c4 show ?thesis by simp
qed

text \<open>
  Claim C10 as stated fails: with a format outside the five names and an output file that
  cannot be opened, \<^verbatim>\<open>cli\<close> ends with \<open>OSError\<close>; the help text is not printed and
  \<^verbatim>\<open>sysexit(1)\<close> is not reached.
\<close>

theorem cli_unknown_format_counterexample:
  "''xml'' \<notin> {''simple'', ''ansi'', ''json'', ''markdown'', ''csv''} \<and>
   cli (example_env 0 ''foo 1.0 a'' None)
       \<lparr>arg_format = Some ''xml'', arg_file = Some ''missing/report.txt''\<rparr>
     = ([Open ''missing/report.txt'' ''w''], Inl OSError) \<and>
   Print Stdout FORMAT_HELP \<notin> set (fst (cli (example_env 0 ''foo 1.0 a'' None)
       \<lparr>arg_format = Some ''xml'', arg_file = Some ''missing/report.txt''\<rparr>)) \<and>
   snd (cli (example_env 0 ''foo 1.0 a'' None)
       \<lparr>arg_format = Some ''xml'', arg_file = Some ''missing/report.txt''\<rparr>)
     \<noteq> Inl (SystemExit 1)"
  by (simp add: cli_def bind_def call_def example_env_def)

end
